theory Spec2Isabelle
  imports Main
begin

section \<open>Values, objects and promises\<close>

text \<open>
  The repository's TypeScript modules are \<^verbatim>\<open>ProvideInject2\<close>, \<^verbatim>\<open>useProduct\<close>,
  \<^verbatim>\<open>useMyUser\<close>, \<^verbatim>\<open>userLogin\<close>, \<^verbatim>\<open>fetchMyUser\<close> and
  \<^verbatim>\<open>fetchProduct\<close>. Each function is a few lines over primitives that the
  repository imports: Vue's \<^verbatim>\<open>provide\<close>, \<^verbatim>\<open>inject\<close>, \<^verbatim>\<open>ref\<close> and
  \<^verbatim>\<open>computed\<close>, \<^verbatim>\<open>nanoid\<close>, \<^verbatim>\<open>useSWR\<close>, \<^verbatim>\<open>console.log\<close> and
  the helper \<^verbatim>\<open>delay\<close>.

  A TypeScript \<^verbatim>\<open>number\<close> is kept abstract: it is the type variable \<open>'n\<close>, and
  the conversion that \<^verbatim>\<open>'Super Product #' + productId\<close> applies to it is a parameter
  \<open>toString\<close> of the functions that concatenate. Where the source names a
  variable as it names a field of an object (\<^verbatim>\<open>productId\<close>), the variable is
  shortened here (\<open>pid\<close>).
\<close>

datatype 'n js_value = JString string | JNumber 'n

text \<open>The object literal \<^verbatim>\<open>{ username: 'Super USER!' }\<close> of \<^verbatim>\<open>fetchMyUser\<close>.\<close>

record user_object =
  username :: string

text \<open>The object literal \<^verbatim>\<open>{ productId, productName }\<close> of \<^verbatim>\<open>fetchProduct\<close>.\<close>

record 'n product_object =
  productId :: 'n
  productName :: string

text \<open>
  What awaiting a promise gives: the value it resolved to, or the reason it was rejected
  with (which \<^verbatim>\<open>await\<close> rethrows).
\<close>

datatype 'a promise = Resolved 'a | Rejected string

text \<open>A Vue \<^verbatim>\<open>Ref<T>\<close>: an object with the one field \<^verbatim>\<open>value\<close>.\<close>

datatype 'a ref = Ref (ref_value: 'a)

text \<open>
  A key handed to \<^verbatim>\<open>useSWR\<close>: the plain string of \<^verbatim>\<open>useMyUser\<close>, or the array
  \<^verbatim>\<open>[uniqueKey, productIdRef]\<close> of \<^verbatim>\<open>useProduct\<close>, whose elements are strings and
  refs.
\<close>

datatype 'n key_part = KeyString string | KeyRef "'n ref"

datatype 'n swr_key = Key string | KeyArray "'n key_part list"

text \<open>
  The objects with an \<^verbatim>\<open>error\<close> field: what \<^verbatim>\<open>useSWR\<close> returns (read by the
  hooks as \<^verbatim>\<open>{ data, error }\<close>; the record scheme leaves room for whatever other
  fields it has), and what the two hooks return, \<^verbatim>\<open>{ user, error }\<close> and
  \<^verbatim>\<open>{ product, error }\<close>.
\<close>

record 'e with_error =
  error :: 'e

record ('e, 'd) swr_response = "'e with_error" +
  data :: 'd

record ('e, 'd) my_user = "'e with_error" +
  user :: 'd

record ('e, 'd) my_product = "'e with_error" +
  product :: 'd

section \<open>The world the functions act on\<close>

text \<open>
  A component instance is named by the path from it up to the root of the component
  tree: its own index among its siblings first, then its parent's name. The root is
  \<open>[]\<close>.
\<close>

type_synonym component = "nat list"

text \<open>The ancestors of a component, the nearest first.\<close>

fun ancestors :: "component \<Rightarrow> component list" where
  "ancestors [] = []"
| "ancestors (i # p) = p # ancestors p"

text \<open>The ancestors of \<open>d\<close> that are nearer to it than \<open>a\<close>.\<close>

definition between :: "component \<Rightarrow> component \<Rightarrow> component list" where
  "between a d = takeWhile (\<lambda>c. c \<noteq> a) (ancestors d)"

text \<open>
  Every call of an imported primitive is recorded, in order, with its arguments.
\<close>

datatype 'n effect =
    NanoId string
  | Provide string string
  | Inject string
  | UseSWR "'n swr_key"
  | Assign "user_object option"
  | ConsoleLog "'n js_value list"
  | Delay nat

record 'n world =
  effects :: "'n effect list"
  nanoid_calls :: nat
  currentInstance :: "component option"
  provides :: "component \<Rightarrow> string \<rightharpoonup> string"
  loggedInUser :: "user_object option"
  isLoggedIn :: "bool option"

text \<open>
  \<open>loggedInUser\<close> is the value of the ref of that name, \<open>None\<close> for
  \<^verbatim>\<open>undefined\<close>. \<open>isLoggedIn\<close> is the computed cell of that name: \<open>Some b\<close> when
  it holds the value \<open>b\<close> computed since its dependency last changed, \<open>None\<close> when
  the next read has to run the getter.
\<close>

definition initial_world :: "'n world" where
  "initial_world =
     \<lparr>effects = [], nanoid_calls = 0, currentInstance = None,
      provides = (\<lambda>c. Map.empty), loggedInUser = None, isLoggedIn = None\<rparr>"

text \<open>The framework runs the \<^verbatim>\<open>setup\<close> of component \<open>c\<close>: \<open>c\<close> is the current instance.\<close>

definition in_setup :: "component \<Rightarrow> 'n world \<Rightarrow> 'n world" where
  "in_setup c w = w\<lparr>currentInstance := Some c\<rparr>"

section \<open>The imported primitives\<close>

text \<open>
  \<^verbatim>\<open>nanoid()\<close>: the next identifier of the generator \<open>gen\<close>, which stands for the
  random source (\<open>gen i\<close> is the identifier of the \<open>i\<close>-th call).
\<close>

definition nanoid :: "(nat \<Rightarrow> string) \<Rightarrow> 'n world \<Rightarrow> string \<times> 'n world" where
  "nanoid gen w =
     (gen (nanoid_calls w),
      w\<lparr>nanoid_calls := Suc (nanoid_calls w),
        effects := effects w @ [NanoId (gen (nanoid_calls w))]\<rparr>)"

text \<open>
  Modelled from the spec: the framework's broadcast primitive, which is imported from
  \<^verbatim>\<open>vue\<close> and is not part of the sources, "a scoped key-value broadcast mechanism from
  an ancestor in a tree to descendants". \<^verbatim>\<open>provide(key, value)\<close> stores the value
  under the key in the current instance (and only warns when there is none);
  \<^verbatim>\<open>inject(key)\<close> looks the key up in the ancestors of the current instance, the
  nearest first, and gives \<^verbatim>\<open>undefined\<close> when none of them holds it or when there is
  no current instance. The nearest first: the repository's README has it that "parents
  can provide whatever they want to their children, regardless of what's going on in
  other parts of the application", and Vue documents that of several components of the
  parent chain that provide the same key the one closest to the injecting component
  shadows those higher up.
\<close>

definition provide :: "string \<Rightarrow> string \<Rightarrow> 'n world \<Rightarrow> 'n world" where
  "provide k v w =
     (case currentInstance w of
        None \<Rightarrow> w\<lparr>effects := effects w @ [Provide k v]\<rparr>
      | Some c \<Rightarrow>
          w\<lparr>provides := (provides w)(c := (provides w c)(k \<mapsto> v)),
            effects := effects w @ [Provide k v]\<rparr>)"

fun resolve :: "(component \<Rightarrow> string \<rightharpoonup> string) \<Rightarrow> string \<Rightarrow> component list \<Rightarrow> string option" where
  "resolve ps k [] = None"
| "resolve ps k (a # as) = (case ps a k of Some v \<Rightarrow> Some v | None \<Rightarrow> resolve ps k as)"

definition inject :: "string \<Rightarrow> 'n world \<Rightarrow> string option \<times> 'n world" where
  "inject k w =
     ((case currentInstance w of
         None \<Rightarrow> None
       | Some c \<Rightarrow> resolve (provides w) k (ancestors c)),
      w\<lparr>effects := effects w @ [Inject k]\<rparr>)"

text \<open>
  Modelled from the spec: the framework's reactive container, imported from \<^verbatim>\<open>vue\<close>,
  "a reactive value container with get/set and derived/computed values recomputed on
  dependency change". Assigning to \<^verbatim>\<open>loggedInUser.value\<close> stores the value and marks the
  computed cell that depends on it for recomputation; reading the computed cell runs its
  getter when it is marked, keeping the result, and gives the kept value otherwise.
\<close>

definition set_loggedInUser :: "user_object option \<Rightarrow> 'n world \<Rightarrow> 'n world" where
  "set_loggedInUser v w =
     w\<lparr>loggedInUser := v, isLoggedIn := None, effects := effects w @ [Assign v]\<rparr>"

definition read_computed :: "('n world \<Rightarrow> bool) \<Rightarrow> 'n world \<Rightarrow> bool \<times> 'n world" where
  "read_computed getter w =
     (case isLoggedIn w of
        Some b \<Rightarrow> (b, w)
      | None \<Rightarrow> (getter w, w\<lparr>isLoggedIn := Some (getter w)\<rparr>))"

text \<open>\<^verbatim>\<open>console.log(...args)\<close>.\<close>

definition console_log :: "'n js_value list \<Rightarrow> 'n world \<Rightarrow> 'n world" where
  "console_log args w = w\<lparr>effects := effects w @ [ConsoleLog args]\<rparr>"

text \<open>
  Modelled from the spec: the helper \<^verbatim>\<open>delay\<close> of \<^verbatim>\<open>./delay\<close>, which the two fetch
  functions import and which is not among the sources, "a simulated network delay":
  a promise that resolves once the given number of milliseconds has passed.
\<close>

definition delay :: "nat \<Rightarrow> 'n world \<Rightarrow> unit promise \<times> 'n world" where
  "delay ms w = (Resolved (), w\<lparr>effects := effects w @ [Delay ms]\<rparr>)"

text \<open>
  \<^verbatim>\<open>await p\<close> followed by the rest \<open>k\<close> of an async function: the rest runs on the
  value \<open>p\<close> resolved to; a rejection of \<open>p\<close> is the rejection of the whole function.
  \<open>async_return\<close> is the \<^verbatim>\<open>return\<close> of an async function.
\<close>

definition await :: "('w \<Rightarrow> 'a promise \<times> 'w) \<Rightarrow> ('a \<Rightarrow> 'w \<Rightarrow> 'b promise \<times> 'w) \<Rightarrow> 'w \<Rightarrow> 'b promise \<times> 'w" where
  "await p k w =
     (case p w of
        (Resolved x, w') \<Rightarrow> k x w'
      | (Rejected e, w') \<Rightarrow> (Rejected e, w'))"

definition async_return :: "'a \<Rightarrow> 'w \<Rightarrow> 'a promise \<times> 'w" where
  "async_return x w = (Resolved x, w)"

section \<open>The modules of the repository\<close>

subsection \<open>fetchProduct.ts and fetchMyUser.ts\<close>

text \<open>
  \<^verbatim>\<open>
  export async function fetchProduct(productId: number) {
    console.log('fetchProduct', productId)
    await delay(1000)
    return { productId, productName: 'Super Product #' + productId }
  }
  \<close>
  The function imports \<^verbatim>\<open>delay\<close> from \<^verbatim>\<open>./delay\<close>. \<open>fetchProduct_body\<close> is
  its body over whatever that import is; \<open>fetchProduct\<close> is the body with the
  \<open>delay\<close> above.
\<close>

definition fetchProduct_body ::
  "(nat \<Rightarrow> 'n world \<Rightarrow> 'x promise \<times> 'n world) \<Rightarrow> ('n \<Rightarrow> string) \<Rightarrow> 'n \<Rightarrow> 'n world \<Rightarrow>
   'n product_object promise \<times> 'n world" where
  "fetchProduct_body imported_delay toString pid w =
     await (imported_delay 1000)
       (\<lambda>_. async_return
          \<lparr>productId = pid, productName = ''Super Product #'' @ toString pid\<rparr>)
       (console_log [JString ''fetchProduct'', JNumber pid] w)"

definition fetchProduct :: "('n \<Rightarrow> string) \<Rightarrow> 'n \<Rightarrow> 'n world \<Rightarrow> 'n product_object promise \<times> 'n world" where
  "fetchProduct toString pid w = fetchProduct_body delay toString pid w"

text \<open>
  \<^verbatim>\<open>
  export async function fetchMyUser() {
    console.log('fetchMyUser')
    await delay(1000)
    return { username: 'Super USER!' }
  }
  \<close>
  Likewise \<open>fetchMyUser_body\<close> is the body over the imported \<^verbatim>\<open>delay\<close>.
\<close>

definition fetchMyUser_body ::
  "(nat \<Rightarrow> 'n world \<Rightarrow> 'x promise \<times> 'n world) \<Rightarrow> 'n world \<Rightarrow> user_object promise \<times> 'n world" where
  "fetchMyUser_body imported_delay w =
     await (imported_delay 1000)
       (\<lambda>_. async_return \<lparr>username = ''Super USER!''\<rparr>)
       (console_log [JString ''fetchMyUser''] w)"

definition fetchMyUser :: "'n world \<Rightarrow> user_object promise \<times> 'n world" where
  "fetchMyUser w = fetchMyUser_body delay w"

subsection \<open>userLogin.ts\<close>

text \<open>
  \<^verbatim>\<open>
  export const loggedInUser = ref()
  export const isLoggedIn = computed(() => loggedInUser.value !== undefined)
  export async function login() {
    loggedInUser.value = await fetchMyUser()
  }
  \<close>
  Loading the module creates the ref, holding \<^verbatim>\<open>undefined\<close>, and the computed cell,
  which has not run its getter yet. The module imports \<^verbatim>\<open>fetchMyUser\<close> from
  \<^verbatim>\<open>./fetchMyUser\<close>: \<open>login_body\<close> is the body of \<^verbatim>\<open>login\<close> over whatever that
  import is, and \<open>login\<close> is the body with the repository's \<open>fetchMyUser\<close>.
\<close>

definition userLogin_module :: "'n world \<Rightarrow> 'n world" where
  "userLogin_module w = w\<lparr>loggedInUser := None, isLoggedIn := None\<rparr>"

definition isLoggedIn_getter :: "'n world \<Rightarrow> bool" where
  "isLoggedIn_getter w = (loggedInUser w \<noteq> None)"

definition isLoggedIn_value :: "'n world \<Rightarrow> bool \<times> 'n world" where
  "isLoggedIn_value w = read_computed isLoggedIn_getter w"

definition login_body ::
  "('n world \<Rightarrow> user_object promise \<times> 'n world) \<Rightarrow> 'n world \<Rightarrow> unit promise \<times> 'n world" where
  "login_body imported_fetchMyUser w =
     await imported_fetchMyUser (\<lambda>u w'. async_return () (set_loggedInUser (Some u) w')) w"

definition login :: "'n world \<Rightarrow> unit promise \<times> 'n world" where
  "login w = login_body fetchMyUser w"

text \<open>
  What an importer of the module can run: \<^verbatim>\<open>login()\<close>, a read of
  \<^verbatim>\<open>loggedInUser.value\<close> and a read of \<^verbatim>\<open>isLoggedIn.value\<close>.
\<close>

datatype userLogin_op = Login | ReadLoggedInUser | ReadIsLoggedIn

fun exec :: "userLogin_op \<Rightarrow> 'n world \<Rightarrow> 'n world" where
  "exec Login w = snd (login w)"
| "exec ReadLoggedInUser w = w"
| "exec ReadIsLoggedIn w = snd (isLoggedIn_value w)"

definition run :: "userLogin_op list \<Rightarrow> 'n world \<Rightarrow> 'n world" where
  "run ops w = fold exec ops w"

subsection \<open>ProvideInject2.ts\<close>

text \<open>
  \<^verbatim>\<open>
  const key = nanoid()
  export function provideTheme(theme: string) { provide(key, theme) }
  export function injectTheme(): string | undefined { return inject(key) }
  \<close>
  Loading the module draws the key; the two functions close over it, so it is their
  first argument here.
\<close>

definition ProvideInject2_module :: "(nat \<Rightarrow> string) \<Rightarrow> 'n world \<Rightarrow> string \<times> 'n world" where
  "ProvideInject2_module gen w = nanoid gen w"

definition provideTheme :: "string \<Rightarrow> string \<Rightarrow> 'n world \<Rightarrow> 'n world" where
  "provideTheme key theme w = provide key theme w"

definition injectTheme :: "string \<Rightarrow> 'n world \<Rightarrow> string option \<times> 'n world" where
  "injectTheme key w = inject key w"

subsection \<open>useMyUser.ts and useProduct.ts\<close>

text \<open>
  \<^verbatim>\<open>
  const key = nanoid()
  export function useMyUser() {
    const { data: user, error } = useSWR(key, fetchMyUser)
    return { user, error }
  }
  \<close>
  \<^verbatim>\<open>useSWR\<close> is the external cache utility: it is a parameter, any function from a
  key, a fetcher and a state of its own choosing to a response and a state.
\<close>

definition useMyUser_module :: "(nat \<Rightarrow> string) \<Rightarrow> 'n world \<Rightarrow> string \<times> 'n world" where
  "useMyUser_module gen w = nanoid gen w"

definition useMyUser ::
  "string \<Rightarrow>
   ('n swr_key \<Rightarrow> ('n world \<Rightarrow> user_object promise \<times> 'n world) \<Rightarrow> 's \<Rightarrow>
      ('e, 'd, 'z) swr_response_scheme \<times> 's) \<Rightarrow>
   's \<Rightarrow> ('e, 'd) my_user \<times> 's" where
  "useMyUser key useSWR s =
     (let (r, s') = useSWR (Key key) fetchMyUser s
      in (\<lparr>error = error r, user = data r\<rparr>, s'))"

text \<open>
  \<^verbatim>\<open>
  const uniqueKey = nanoid()
  export function useProduct(productIdRef: Ref<number>) {
    const key = [uniqueKey, productIdRef]
    const { data: product, error } = useSWR(key, (_, productId) => {
      return fetchProduct(productId)
    })
    return { product, error }
  }
  \<close>
\<close>

definition useProduct_module :: "(nat \<Rightarrow> string) \<Rightarrow> 'n world \<Rightarrow> string \<times> 'n world" where
  "useProduct_module gen w = nanoid gen w"

definition useProduct ::
  "string \<Rightarrow> ('n \<Rightarrow> string) \<Rightarrow>
   ('n swr_key \<Rightarrow> ('k \<Rightarrow> 'n \<Rightarrow> 'n world \<Rightarrow> 'n product_object promise \<times> 'n world) \<Rightarrow> 's \<Rightarrow>
      ('e, 'd, 'z) swr_response_scheme \<times> 's) \<Rightarrow>
   'n ref \<Rightarrow> 's \<Rightarrow> ('e, 'd) my_product \<times> 's" where
  "useProduct uniqueKey toString useSWR productIdRef s =
     (let key = KeyArray [KeyString uniqueKey, KeyRef productIdRef];
          (r, s') = useSWR key (\<lambda>_ pid. fetchProduct toString pid) s
      in (\<lparr>error = error r, product = data r\<rparr>, s'))"

text \<open>
  A stand-in for \<^verbatim>\<open>useSWR\<close> that answers with a given response and records the call
  and its key, to count the calls a hook makes.
\<close>

definition recording_swr ::
  "('e, 'd, 'z) swr_response_scheme \<Rightarrow> 'n swr_key \<Rightarrow> 'f \<Rightarrow> 'n world \<Rightarrow>
   ('e, 'd, 'z) swr_response_scheme \<times> 'n world" where
  "recording_swr r key fetcher w = (r, w\<lparr>effects := effects w @ [UseSWR key]\<rparr>)"


text \<open>
  A second stand-in for \<^verbatim>\<open>useSWR\<close>, which calls the fetcher at once, on the
  arguments \<open>x\<close> and \<open>pid\<close>, and answers with what the fetch gave.
\<close>

definition calling_swr ::
  "'k \<Rightarrow> 'n \<Rightarrow> 'n swr_key \<Rightarrow> ('k \<Rightarrow> 'n \<Rightarrow> 'w \<Rightarrow> 'a promise \<times> 'w) \<Rightarrow> 'w \<Rightarrow>
   (string option, 'a option) swr_response \<times> 'w" where
  "calling_swr x pid key fetcher w =
     (case fetcher x pid w of
        (Resolved v, w') \<Rightarrow> (\<lparr>error = None, data = Some v\<rparr>, w')
      | (Rejected e, w') \<Rightarrow> (\<lparr>error = Some e, data = None\<rparr>, w'))"

section \<open>Reading the record of effects\<close>

text \<open>The calls of primitives made between the world \<open>w\<close> and the later world \<open>w'\<close>.\<close>

definition calls_made :: "'n world \<Rightarrow> 'n world \<Rightarrow> 'n effect list" where
  "calls_made w w' = drop (length (effects w)) (effects w')"

fun delays :: "'n effect list \<Rightarrow> nat list" where
  "delays [] = []"
| "delays (Delay ms # es) = ms # delays es"
| "delays (e # es) = delays es"

fun swr_keys :: "'n effect list \<Rightarrow> 'n swr_key list" where
  "swr_keys [] = []"
| "swr_keys (UseSWR k # es) = k # swr_keys es"
| "swr_keys (e # es) = swr_keys es"

text \<open>
  The kinds of call: to the broadcast primitive, to the cache utility, an assignment to
  the shared reactive cell, and the three others the repository makes.
\<close>

datatype call_kind = Broadcast | CacheCall | CellAssignment | IdGeneration | ConsoleOutput | Timer

fun kind_of :: "'n effect \<Rightarrow> call_kind" where
  "kind_of (NanoId i) = IdGeneration"
| "kind_of (Provide k v) = Broadcast"
| "kind_of (Inject k) = Broadcast"
| "kind_of (UseSWR k) = CacheCall"
| "kind_of (Assign v) = CellAssignment"
| "kind_of (ConsoleLog args) = ConsoleOutput"
| "kind_of (Delay ms) = Timer"

definition forwarding :: "'n effect \<Rightarrow> bool" where
  "forwarding e = (kind_of e = Broadcast \<or> kind_of e = CacheCall \<or> kind_of e = CellAssignment)"

definition does_exactly_one :: "'n effect list \<Rightarrow> bool" where
  "does_exactly_one es = (length (filter forwarding es) = 1)"

text \<open>
  The computed cell agrees with the ref: a value it holds is the one its getter would
  give now.
\<close>

definition coherent :: "'n world \<Rightarrow> bool" where
  "coherent w = (case isLoggedIn w of None \<Rightarrow> True | Some b \<Rightarrow> b = (loggedInUser w \<noteq> None))"

section \<open>What each function does to the world\<close>

lemma swr_keys_replicate: "swr_keys (replicate n (UseSWR k)) = replicate n k"
  by (induction n) simp_all

lemma swr_keys_map: "swr_keys (map (\<lambda>x. UseSWR (f x)) xs) = map f xs"
  by (induction xs) simp_all

lemma fetchProduct_eq:
  "fetchProduct toString pid w =
     (Resolved \<lparr>productId = pid, productName = ''Super Product #'' @ toString pid\<rparr>,
      w\<lparr>effects := effects w @ [ConsoleLog [JString ''fetchProduct'', JNumber pid], Delay 1000]\<rparr>)"
  by (simp add: fetchProduct_def fetchProduct_body_def await_def delay_def console_log_def
      async_return_def)

lemma fetchMyUser_eq:
  "fetchMyUser w =
     (Resolved \<lparr>username = ''Super USER!''\<rparr>,
      w\<lparr>effects := effects w @ [ConsoleLog [JString ''fetchMyUser''], Delay 1000]\<rparr>)"
  by (simp add: fetchMyUser_def fetchMyUser_body_def await_def delay_def console_log_def
      async_return_def)

lemma login_eq:
  "login w =
     (Resolved (),
      w\<lparr>loggedInUser := Some \<lparr>username = ''Super USER!''\<rparr>, isLoggedIn := None,
        effects := effects w @ [ConsoleLog [JString ''fetchMyUser''], Delay 1000,
                                Assign (Some \<lparr>username = ''Super USER!''\<rparr>)]\<rparr>)"
  by (simp add: login_def login_body_def await_def fetchMyUser_eq async_return_def
      set_loggedInUser_def)

text \<open>
  The three async bodies over any imported function: one call of it, its value taken as
  it comes, its rejection passed on.
\<close>

lemma fetchProduct_body_eq:
  "fetchProduct_body imported_delay toString pid w =
     (case imported_delay 1000 (console_log [JString ''fetchProduct'', JNumber pid] w) of
        (Resolved x, w') \<Rightarrow>
          (Resolved \<lparr>productId = pid, productName = ''Super Product #'' @ toString pid\<rparr>, w')
      | (Rejected e, w') \<Rightarrow> (Rejected e, w'))"
  by (simp add: fetchProduct_body_def await_def async_return_def split: prod.split promise.split)

lemma fetchMyUser_body_eq:
  "fetchMyUser_body imported_delay w =
     (case imported_delay 1000 (console_log [JString ''fetchMyUser''] w) of
        (Resolved x, w') \<Rightarrow> (Resolved \<lparr>username = ''Super USER!''\<rparr>, w')
      | (Rejected e, w') \<Rightarrow> (Rejected e, w'))"
  by (simp add: fetchMyUser_body_def await_def async_return_def split: prod.split promise.split)

lemma login_body_eq:
  "login_body imported_fetchMyUser w =
     (case imported_fetchMyUser w of
        (Resolved u, w') \<Rightarrow> (Resolved (), set_loggedInUser (Some u) w')
      | (Rejected e, w') \<Rightarrow> (Rejected e, w'))"
  by (simp add: login_body_def await_def async_return_def split: prod.split promise.split)

lemma provideTheme_effects:
  "effects (provideTheme key theme w) = effects w @ [Provide key theme]"
  by (simp add: provideTheme_def provide_def split: option.split)

lemma injectTheme_effects:
  "effects (snd (injectTheme key w)) = effects w @ [Inject key]"
  by (simp add: injectTheme_def inject_def)

lemma useMyUser_recording:
  "useMyUser key (recording_swr r) w =
     (\<lparr>error = error r, user = data r\<rparr>, w\<lparr>effects := effects w @ [UseSWR (Key key)]\<rparr>)"
  by (simp add: useMyUser_def recording_swr_def)

lemma useProduct_recording:
  "useProduct uniqueKey toString (recording_swr r) productIdRef w =
     (\<lparr>error = error r, product = data r\<rparr>,
      w\<lparr>effects := effects w @ [UseSWR (KeyArray [KeyString uniqueKey, KeyRef productIdRef])]\<rparr>)"
  by (simp add: useProduct_def recording_swr_def)

text \<open>Any number of calls of a hook, one after the other.\<close>

lemma useMyUser_calls:
  "((\<lambda>w. snd (useMyUser key (recording_swr r) w)) ^^ n) w
     = w\<lparr>effects := effects w @ replicate n (UseSWR (Key key))\<rparr>"
proof (induction n)
  case 0
  show ?case by simp
next
  case (Suc n)
  then show ?case
    by (simp add: useMyUser_recording replicate_append_same)
qed

lemma useProduct_calls:
  "fold (\<lambda>productIdRef w. snd (useProduct uniqueKey toString (recording_swr r) productIdRef w)) rs w
     = w\<lparr>effects := effects w @
          map (\<lambda>productIdRef. UseSWR (KeyArray [KeyString uniqueKey, KeyRef productIdRef])) rs\<rparr>"
  by (induction rs arbitrary: w) (simp_all add: useProduct_recording)

section \<open>The hooks over useSWR\<close>

text \<open>
  C1. Whatever \<^verbatim>\<open>useSWR\<close> is and whatever response it gives, \<open>useMyUser\<close> returns the
  \<^verbatim>\<open>error\<close> field of that response as its own \<^verbatim>\<open>error\<close> field, and the
  \<^verbatim>\<open>data\<close> field under the name \<^verbatim>\<open>user\<close>; \<open>useProduct\<close> does the same, with
  \<^verbatim>\<open>data\<close> under the name \<^verbatim>\<open>product\<close>. The types of the two fields are type
  variables: the hooks cannot look into the values, and neither changes, filters or
  replaces the error.
\<close>

theorem hooks_pass_error_through:
  "error (fst (useMyUser key useSWR s)) = error (fst (useSWR (Key key) fetchMyUser s))
   \<and> user (fst (useMyUser key useSWR s)) = data (fst (useSWR (Key key) fetchMyUser s))
   \<and> error (fst (useProduct uniqueKey toString useSWR' productIdRef s'))
       = error (fst (useSWR' (KeyArray [KeyString uniqueKey, KeyRef productIdRef])
                       (\<lambda>_ pid. fetchProduct toString pid) s'))
   \<and> product (fst (useProduct uniqueKey toString useSWR' productIdRef s'))
       = data (fst (useSWR' (KeyArray [KeyString uniqueKey, KeyRef productIdRef])
                      (\<lambda>_ pid. fetchProduct toString pid) s'))"
  by (simp add: useMyUser_def useProduct_def split: prod.split)

text \<open>
  C7. \<open>useProduct\<close> has no cache of its own. For every ref it is one application of
  \<^verbatim>\<open>useSWR\<close> to the key \<^verbatim>\<open>[uniqueKey, productIdRef]\<close> and to a fetcher, and its
  result is the \<^verbatim>\<open>data\<close> and \<^verbatim>\<open>error\<close> of the response, as they are (the first
  under the name \<^verbatim>\<open>product\<close>). Against the recording stand-in it makes exactly one
  call, with that key. Against the stand-in that calls the fetcher on any two arguments
  \<open>x\<close> and \<open>pid\<close>, what comes back is what \<open>fetchProduct\<close> resolves to on \<open>pid\<close>:
  the fetcher ignores its first argument and is \<open>fetchProduct\<close> on its second.
\<close>

theorem useProduct_delegates:
  "useProduct uniqueKey toString useSWR productIdRef s =
     (case useSWR (KeyArray [KeyString uniqueKey, KeyRef productIdRef])
             (\<lambda>_ pid. fetchProduct toString pid) s of
        (r, s') \<Rightarrow> (\<lparr>error = error r, product = data r\<rparr>, s'))
   \<and> calls_made w (snd (useProduct uniqueKey toString (recording_swr r') productIdRef w))
       = [UseSWR (KeyArray [KeyString uniqueKey, KeyRef productIdRef])]
   \<and> useProduct uniqueKey toString (calling_swr x pid) productIdRef w
       = (\<lparr>error = None,
           product = Some \<lparr>productId = pid, productName = ''Super Product #'' @ toString pid\<rparr>\<rparr>,
          snd (fetchProduct toString pid w))"
proof (intro conjI)
  show "useProduct uniqueKey toString useSWR productIdRef s =
     (case useSWR (KeyArray [KeyString uniqueKey, KeyRef productIdRef])
             (\<lambda>_ pid. fetchProduct toString pid) s of
        (r, s') \<Rightarrow> (\<lparr>error = error r, product = data r\<rparr>, s'))"
    by (simp add: useProduct_def)
  show "calls_made w (snd (useProduct uniqueKey toString (recording_swr r') productIdRef w))
       = [UseSWR (KeyArray [KeyString uniqueKey, KeyRef productIdRef])]"
    by (simp add: useProduct_recording calls_made_def)
  show "useProduct uniqueKey toString (calling_swr x pid) productIdRef w
       = (\<lparr>error = None,
           product = Some \<lparr>productId = pid, productName = ''Super Product #'' @ toString pid\<rparr>\<rparr>,
          snd (fetchProduct toString pid w))"
    by (simp add: useProduct_def calling_swr_def fetchProduct_eq)
qed

text \<open>
  C6. Each hook module draws its key once, when it is loaded: loading is one call of
  \<^verbatim>\<open>nanoid\<close>, and the calls of the hook that follow make none. Every call of
  \<open>useMyUser\<close> hands \<^verbatim>\<open>useSWR\<close> that key; the keys of any number of calls, one
  after the other, are all that key. Every call of \<open>useProduct\<close> hands \<^verbatim>\<open>useSWR\<close> an
  array whose first element is the module's \<^verbatim>\<open>uniqueKey\<close>, whatever the refs are. The
  two functions of \<^verbatim>\<open>ProvideInject2\<close> call the broadcast primitive with the key of
  their module.
\<close>

theorem key_generated_once:
  "(case useMyUser_module gen w of (key, w1) \<Rightarrow>
      key = gen (nanoid_calls w) \<and> nanoid_calls w1 = Suc (nanoid_calls w) \<and>
      useMyUser key useSWR s =
        (case useSWR (Key key) fetchMyUser s of (r, s') \<Rightarrow> (\<lparr>error = error r, user = data r\<rparr>, s')) \<and>
      (let w2 = ((\<lambda>w. snd (useMyUser key (recording_swr r) w)) ^^ n) w1 in
         swr_keys (calls_made w1 w2) = replicate n (Key key) \<and> nanoid_calls w2 = nanoid_calls w1))
   \<and> (case useProduct_module gen w of (uniqueKey, w1) \<Rightarrow>
      uniqueKey = gen (nanoid_calls w) \<and> nanoid_calls w1 = Suc (nanoid_calls w) \<and>
      (let w2 = fold (\<lambda>productIdRef w.
                   snd (useProduct uniqueKey toString (recording_swr r') productIdRef w)) rs w1 in
         swr_keys (calls_made w1 w2)
           = map (\<lambda>productIdRef. KeyArray [KeyString uniqueKey, KeyRef productIdRef]) rs
         \<and> nanoid_calls w2 = nanoid_calls w1))
   \<and> (case ProvideInject2_module gen w of (key, w1) \<Rightarrow>
      key = gen (nanoid_calls w) \<and> nanoid_calls w1 = Suc (nanoid_calls w) \<and>
      calls_made w1 (provideTheme key theme w1) = [Provide key theme] \<and>
      calls_made w1 (snd (injectTheme key w1)) = [Inject key])"
proof (intro conjI)
  have "useMyUser key useSWR s =
      (case useSWR (Key key) fetchMyUser s of (r, s') \<Rightarrow> (\<lparr>error = error r, user = data r\<rparr>, s'))"
    for key
    by (simp add: useMyUser_def)
  then show "case useMyUser_module gen w of (key, w1) \<Rightarrow>
      key = gen (nanoid_calls w) \<and> nanoid_calls w1 = Suc (nanoid_calls w) \<and>
      useMyUser key useSWR s =
        (case useSWR (Key key) fetchMyUser s of (r, s') \<Rightarrow> (\<lparr>error = error r, user = data r\<rparr>, s')) \<and>
      (let w2 = ((\<lambda>w. snd (useMyUser key (recording_swr r) w)) ^^ n) w1 in
         swr_keys (calls_made w1 w2) = replicate n (Key key) \<and> nanoid_calls w2 = nanoid_calls w1)"
    by (simp add: useMyUser_module_def nanoid_def useMyUser_calls calls_made_def swr_keys_replicate)
  show "case useProduct_module gen w of (uniqueKey, w1) \<Rightarrow>
      uniqueKey = gen (nanoid_calls w) \<and> nanoid_calls w1 = Suc (nanoid_calls w) \<and>
      (let w2 = fold (\<lambda>productIdRef w.
                   snd (useProduct uniqueKey toString (recording_swr r') productIdRef w)) rs w1 in
         swr_keys (calls_made w1 w2)
           = map (\<lambda>productIdRef. KeyArray [KeyString uniqueKey, KeyRef productIdRef]) rs
         \<and> nanoid_calls w2 = nanoid_calls w1)"
    by (simp add: useProduct_module_def nanoid_def useProduct_calls calls_made_def swr_keys_map)
  show "case ProvideInject2_module gen w of (key, w1) \<Rightarrow>
      key = gen (nanoid_calls w) \<and> nanoid_calls w1 = Suc (nanoid_calls w) \<and>
      calls_made w1 (provideTheme key theme w1) = [Provide key theme] \<and>
      calls_made w1 (snd (injectTheme key w1)) = [Inject key]"
    by (simp add: ProvideInject2_module_def nanoid_def calls_made_def provideTheme_effects
        injectTheme_effects)
qed

section \<open>The fetch functions\<close>

text \<open>
  C3. For every number \<open>pid\<close>, \<open>fetchProduct\<close> writes its console line, awaits
  \<^verbatim>\<open>delay(1000)\<close> once, and then resolves to the object whose \<^verbatim>\<open>productId\<close> is
  \<open>pid\<close> and whose \<^verbatim>\<open>productName\<close> is \<^verbatim>\<open>'Super Product #'\<close> followed by \<open>pid\<close>
  as a string. The delays a call adds to the record are the one delay of 1000 ms.
  \<open>fetchMyUser\<close> adds one such delay too, and no other function has one of its own:
  \<open>login\<close> adds what its call of \<open>fetchMyUser\<close> adds, and \<open>provideTheme\<close>,
  \<open>injectTheme\<close>, \<open>useMyUser\<close> and \<open>useProduct\<close> add none.
\<close>

theorem fetchProduct_delay_once:
  "fetchProduct toString pid w =
     (Resolved \<lparr>productId = pid, productName = ''Super Product #'' @ toString pid\<rparr>,
      w\<lparr>effects := effects w @ [ConsoleLog [JString ''fetchProduct'', JNumber pid], Delay 1000]\<rparr>)
   \<and> delays (calls_made w (snd (fetchProduct toString pid w))) = [1000]
   \<and> delays (calls_made w (snd (fetchMyUser w))) = [1000]
   \<and> delays (calls_made w (snd (login w))) = delays (calls_made w (snd (fetchMyUser w)))
   \<and> delays (calls_made w (provideTheme key theme w)) = []
   \<and> delays (calls_made w (snd (injectTheme key w))) = []
   \<and> delays (calls_made w (snd (useMyUser key' (recording_swr r) w))) = []
   \<and> delays (calls_made w (snd (useProduct uniqueKey toString (recording_swr r') productIdRef w))) = []"
  by (simp add: fetchProduct_eq fetchMyUser_eq login_eq provideTheme_effects injectTheme_effects
      useMyUser_recording useProduct_recording calls_made_def)

text \<open>
  C8. \<open>fetchMyUser\<close> takes no argument and reads nothing of the world: in every world,
  and so after any number of earlier calls, it resolves to the one object
  \<^verbatim>\<open>{ username: 'Super USER!' }\<close>. It is never rejected, and what it resolves to is
  an object, not \<^verbatim>\<open>undefined\<close>.
\<close>

theorem fetchMyUser_constant:
  "fst (fetchMyUser w) = Resolved \<lparr>username = ''Super USER!''\<rparr>
   \<and> fst (fetchMyUser (((\<lambda>w. snd (fetchMyUser w)) ^^ n) w)) = fst (fetchMyUser w')
   \<and> (\<forall>e. fst (fetchMyUser w) \<noteq> Rejected e)"
  by (simp add: fetchMyUser_eq)

section \<open>What the exported functions forward\<close>

text \<open>
  C4, as the specification states it: every exported function, \<open>fetchProduct\<close> and
  \<open>fetchMyUser\<close> among them, does exactly one of three things: it forwards to the
  broadcast primitive, to the cache utility, or assigns to the shared reactive cell.
  \<open>fetchMyUser\<close> does none of the three: it writes a console line and awaits the
  delay.
\<close>

theorem fetchMyUser_forwards_nothing:
  "\<not> does_exactly_one
       (calls_made (initial_world :: int world) (snd (fetchMyUser initial_world)))"
  by (simp add: does_exactly_one_def calls_made_def fetchMyUser_eq forwarding_def
      initial_world_def)

text \<open>
  C4, amended. Each of \<open>provideTheme\<close>, \<open>injectTheme\<close>, \<open>useProduct\<close>,
  \<open>useMyUser\<close> and \<open>login\<close> does exactly one of: it forwards to the framework
  broadcast primitive, it forwards a key and a fetch function to the external cache
  utility, or it assigns a value to the shared reactive cell. \<open>fetchProduct\<close> and
  \<open>fetchMyUser\<close> do none of the three: each writes a console line, awaits the delay
  and returns an object literal. None of the seven involves branching logic, retries or
  locally implemented error handling.

  The statement gives each function whole, for every argument, every world and every
  behaviour of what it is handed or imports:
  \<^item> \<open>provideTheme\<close> is \<^verbatim>\<open>provide\<close> on the module's key and the theme as given, and
    \<open>injectTheme\<close> is \<^verbatim>\<open>inject\<close> on the key, its answer returned as it is,
    \<^verbatim>\<open>undefined\<close> included;
  \<^item> each hook is one application of \<^verbatim>\<open>useSWR\<close>, whatever \<^verbatim>\<open>useSWR\<close> is, with the
    \<^verbatim>\<open>data\<close> and the \<^verbatim>\<open>error\<close> of its response returned as they are;
  \<^item> \<open>login\<close> awaits the imported fetch once, whatever that is: what it resolves to is
    assigned as it is, and when it is rejected nothing is assigned and \<open>login\<close> is
    rejected with the same reason;
  \<^item> each fetch function writes its line, awaits the imported delay once, whatever that
    is, and then returns its object; a rejection of the delay is its own rejection.

  So no function chooses between two courses on its input or on what it gets back, none
  calls anything twice, and none catches or replaces a failure. The calls counted are
  those of the five: one forwarding call each, and none for the fetch functions.
\<close>

theorem exported_functions_calls:
  "provideTheme key theme w = provide key theme w
   \<and> injectTheme key w = inject key w
   \<and> useMyUser key' useSWR s =
       (case useSWR (Key key') fetchMyUser s of
          (r, s1) \<Rightarrow> (\<lparr>error = error r, user = data r\<rparr>, s1))
   \<and> useProduct uniqueKey toString useSWR' productIdRef s' =
       (case useSWR' (KeyArray [KeyString uniqueKey, KeyRef productIdRef])
               (\<lambda>_ pid. fetchProduct toString pid) s' of
          (r, s1) \<Rightarrow> (\<lparr>error = error r, product = data r\<rparr>, s1))
   \<and> login w = login_body fetchMyUser w
   \<and> login_body imported_fetchMyUser w =
       (case imported_fetchMyUser w of
          (Resolved u, w1) \<Rightarrow> (Resolved (), set_loggedInUser (Some u) w1)
        | (Rejected e, w1) \<Rightarrow> (Rejected e, w1))
   \<and> fetchProduct toString pid w = fetchProduct_body delay toString pid w
   \<and> fetchProduct_body imported_delay toString pid w =
       (case imported_delay 1000 (console_log [JString ''fetchProduct'', JNumber pid] w) of
          (Resolved x, w1) \<Rightarrow>
            (Resolved \<lparr>productId = pid, productName = ''Super Product #'' @ toString pid\<rparr>, w1)
        | (Rejected e, w1) \<Rightarrow> (Rejected e, w1))
   \<and> fetchMyUser w = fetchMyUser_body delay w
   \<and> fetchMyUser_body imported_delay' w =
       (case imported_delay' 1000 (console_log [JString ''fetchMyUser''] w) of
          (Resolved x, w1) \<Rightarrow> (Resolved \<lparr>username = ''Super USER!''\<rparr>, w1)
        | (Rejected e, w1) \<Rightarrow> (Rejected e, w1))
   \<and> map kind_of (calls_made w (provideTheme key theme w)) = [Broadcast]
   \<and> map kind_of (calls_made w (snd (injectTheme key w))) = [Broadcast]
   \<and> map kind_of (calls_made w (snd (useMyUser key' (recording_swr r) w))) = [CacheCall]
   \<and> map kind_of (calls_made w (snd (useProduct uniqueKey toString (recording_swr r') productIdRef w)))
       = [CacheCall]
   \<and> map kind_of (calls_made w (snd (login w))) = [ConsoleOutput, Timer, CellAssignment]
   \<and> map kind_of (calls_made w (snd (fetchProduct toString pid w))) = [ConsoleOutput, Timer]
   \<and> map kind_of (calls_made w (snd (fetchMyUser w))) = [ConsoleOutput, Timer]
   \<and> does_exactly_one (calls_made w (provideTheme key theme w))
   \<and> does_exactly_one (calls_made w (snd (injectTheme key w)))
   \<and> does_exactly_one (calls_made w (snd (useMyUser key' (recording_swr r) w)))
   \<and> does_exactly_one (calls_made w (snd (useProduct uniqueKey toString (recording_swr r') productIdRef w)))
   \<and> does_exactly_one (calls_made w (snd (login w)))
   \<and> filter forwarding (calls_made w (snd (fetchProduct toString pid w))) = []
   \<and> filter forwarding (calls_made w (snd (fetchMyUser w))) = []"
proof (intro conjI)
  show "provideTheme key theme w = provide key theme w"
    by (simp add: provideTheme_def)
  show "injectTheme key w = inject key w"
    by (simp add: injectTheme_def)
  show "useMyUser key' useSWR s =
       (case useSWR (Key key') fetchMyUser s of
          (r, s1) \<Rightarrow> (\<lparr>error = error r, user = data r\<rparr>, s1))"
    by (simp add: useMyUser_def)
  show "useProduct uniqueKey toString useSWR' productIdRef s' =
       (case useSWR' (KeyArray [KeyString uniqueKey, KeyRef productIdRef])
               (\<lambda>_ pid. fetchProduct toString pid) s' of
          (r, s1) \<Rightarrow> (\<lparr>error = error r, product = data r\<rparr>, s1))"
    by (simp add: useProduct_def)
  show "login w = login_body fetchMyUser w"
    by (simp add: login_def)
  show "login_body imported_fetchMyUser w =
       (case imported_fetchMyUser w of
          (Resolved u, w1) \<Rightarrow> (Resolved (), set_loggedInUser (Some u) w1)
        | (Rejected e, w1) \<Rightarrow> (Rejected e, w1))"
    by (rule login_body_eq)
  show "fetchProduct toString pid w = fetchProduct_body delay toString pid w"
    by (simp add: fetchProduct_def)
  show "fetchProduct_body imported_delay toString pid w =
       (case imported_delay 1000 (console_log [JString ''fetchProduct'', JNumber pid] w) of
          (Resolved x, w1) \<Rightarrow>
            (Resolved \<lparr>productId = pid, productName = ''Super Product #'' @ toString pid\<rparr>, w1)
        | (Rejected e, w1) \<Rightarrow> (Rejected e, w1))"
    by (rule fetchProduct_body_eq)
  show "fetchMyUser w = fetchMyUser_body delay w"
    by (simp add: fetchMyUser_def)
  show "fetchMyUser_body imported_delay' w =
       (case imported_delay' 1000 (console_log [JString ''fetchMyUser''] w) of
          (Resolved x, w1) \<Rightarrow> (Resolved \<lparr>username = ''Super USER!''\<rparr>, w1)
        | (Rejected e, w1) \<Rightarrow> (Rejected e, w1))"
    by (rule fetchMyUser_body_eq)
qed (simp_all add: calls_made_def provideTheme_effects injectTheme_effects useMyUser_recording
      useProduct_recording login_eq fetchProduct_eq fetchMyUser_eq does_exactly_one_def
      forwarding_def)

section \<open>userLogin: the ref and the computed cell\<close>

text \<open>
  A call of \<open>login\<close> is one step of the module: all it does to the ref is the one
  assignment after the await, and JavaScript runs that without interruption.
\<close>

lemma coherent_read: "coherent w \<Longrightarrow> fst (isLoggedIn_value w) = (loggedInUser w \<noteq> None)"
  by (simp add: coherent_def isLoggedIn_value_def read_computed_def isLoggedIn_getter_def
      split: option.splits)

text \<open>Any assignment to the ref through its setter leaves the cell in agreement.\<close>

lemma coherent_set: "coherent (set_loggedInUser v w)"
  by (simp add: coherent_def set_loggedInUser_def)

lemma coherent_exec: "coherent w \<Longrightarrow> coherent (exec op w)"
  by (cases op)
     (auto simp: coherent_def login_eq isLoggedIn_value_def read_computed_def isLoggedIn_getter_def
       split: option.splits)

lemma coherent_run: "coherent w \<Longrightarrow> coherent (run ops w)"
  unfolding run_def by (induction ops arbitrary: w) (simp_all add: coherent_exec)

lemma coherent_module: "coherent (userLogin_module w)"
  by (simp add: coherent_def userLogin_module_def)

text \<open>
  C5. When the module is loaded \<open>isLoggedIn\<close> reads false, the ref holding
  \<^verbatim>\<open>undefined\<close>. After any sequence of the module's operations from there, calls of
  \<open>login\<close> among them at any place, a read of \<open>isLoggedIn\<close> gives true exactly when
  \<open>loggedInUser\<close> holds a value; and so it does right after a call of \<open>login\<close> in
  any world whatever.
\<close>

theorem isLoggedIn_tracks_loggedInUser:
  "\<not> fst (isLoggedIn_value (userLogin_module w))
   \<and> fst (isLoggedIn_value (run ops (userLogin_module w)))
       = (loggedInUser (run ops (userLogin_module w)) \<noteq> None)
   \<and> fst (isLoggedIn_value (snd (login w')))
       = (loggedInUser (snd (login w')) \<noteq> None)"
proof (intro conjI)
  show "\<not> fst (isLoggedIn_value (userLogin_module w))"
    by (simp add: coherent_read coherent_module) (simp add: userLogin_module_def)
  show "fst (isLoggedIn_value (run ops (userLogin_module w)))
       = (loggedInUser (run ops (userLogin_module w)) \<noteq> None)"
    by (intro coherent_read coherent_run coherent_module)
  have "coherent (snd (login w'))"
    by (simp add: login_eq coherent_def)
  then show "fst (isLoggedIn_value (snd (login w')))
       = (loggedInUser (snd (login w')) \<noteq> None)"
    by (rule coherent_read)
qed

lemma logged_in_exec: "fst (isLoggedIn_value w) \<Longrightarrow> fst (isLoggedIn_value (exec op w))"
  by (cases op)
     (auto simp: login_eq isLoggedIn_value_def read_computed_def isLoggedIn_getter_def
       split: option.splits)

lemma logged_in_run: "fst (isLoggedIn_value w) \<Longrightarrow> fst (isLoggedIn_value (run ops w))"
  unfolding run_def by (induction ops arbitrary: w) (simp_all add: logged_in_exec)

lemma user_kept_exec: "loggedInUser w \<noteq> None \<Longrightarrow> loggedInUser (exec op w) \<noteq> None"
  by (cases op)
     (auto simp: login_eq isLoggedIn_value_def read_computed_def split: option.splits)

lemma user_kept_run: "loggedInUser w \<noteq> None \<Longrightarrow> loggedInUser (run ops w) \<noteq> None"
  unfolding run_def
  by (induction ops arbitrary: w) (simp_all add: user_kept_exec del: not_None_eq)

text \<open>
  C9. A call of \<open>login\<close> resolves, and \<open>isLoggedIn\<close> reads true after it. Once
  \<open>isLoggedIn\<close> reads true it reads true after any further operations of the module,
  and a ref that holds a user never goes back to \<^verbatim>\<open>undefined\<close> under them.
\<close>

theorem isLoggedIn_never_reverts:
  "fst (login w) = Resolved ()
   \<and> fst (isLoggedIn_value (snd (login w)))
   \<and> (fst (isLoggedIn_value w) \<longrightarrow> fst (isLoggedIn_value (run ops w)))
   \<and> (loggedInUser w \<noteq> None \<longrightarrow> loggedInUser (run ops w) \<noteq> None)"
  by (simp add: logged_in_run user_kept_run)
     (simp add: login_eq isLoggedIn_value_def read_computed_def isLoggedIn_getter_def)

theorem isLoggedIn_never_reverts_witness:
  "fst (isLoggedIn_value (snd (login (initial_world :: int world))))
   \<and> fst (isLoggedIn_value
            (run [ReadIsLoggedIn, Login, ReadLoggedInUser, ReadIsLoggedIn]
               (snd (login (initial_world :: int world)))))
   \<and> loggedInUser (run [ReadIsLoggedIn, Login, ReadLoggedInUser, ReadIsLoggedIn]
                      (snd (login (initial_world :: int world)))) \<noteq> None"
  using isLoggedIn_never_reverts
    [of "snd (login (initial_world :: int world))"
        "[ReadIsLoggedIn, Login, ReadLoggedInUser, ReadIsLoggedIn]"]
  by (simp add: login_eq isLoggedIn_value_def read_computed_def isLoggedIn_getter_def)

section \<open>ProvideInject2: the theme from an ancestor\<close>

lemma resolve_None_iff: "resolve ps k as = None \<longleftrightarrow> (\<forall>a\<in>set as. ps a k = None)"
  by (induction as) (auto split: option.splits)

lemma resolve_nearest:
  "a \<in> set as \<Longrightarrow> \<forall>c\<in>set (takeWhile (\<lambda>c. c \<noteq> a) as). ps c k = None \<Longrightarrow>
   ps a k = Some v \<Longrightarrow> resolve ps k as = Some v"
proof (induction as)
  case Nil
  then show ?case by simp
next
  case (Cons b bs)
  show ?case
  proof (cases "b = a")
    case True
    with Cons.prems(3) show ?thesis by simp
  next
    case False
    with Cons.prems(2) have "ps b k = None"
      and "\<forall>c\<in>set (takeWhile (\<lambda>c. c \<noteq> a) bs). ps c k = None"
      by simp_all
    moreover from False Cons.prems(1) have "a \<in> set bs" by simp
    ultimately show ?thesis using Cons.IH Cons.prems(3) by simp
  qed
qed

text \<open>\<open>provideTheme\<close> writes one slot: the module's key in the component that calls it.\<close>

lemma provideTheme_provides:
  "provides (provideTheme key theme (in_setup c w)) a k =
     (if a = c \<and> k = key then Some theme else provides w a k)"
  by (simp add: provideTheme_def provide_def in_setup_def)

lemma injectTheme_in_setup:
  "fst (injectTheme key (in_setup d w)) = resolve (provides w) key (ancestors d)"
  by (simp add: injectTheme_def inject_def in_setup_def)

lemma between_not_self: "c \<in> set (between a d) \<Longrightarrow> c \<noteq> a"
  unfolding between_def by (auto dest: set_takeWhileD)

text \<open>A descendant receives the theme of the nearest ancestor that holds one.\<close>

lemma injectTheme_nearest:
  assumes "a \<in> set (ancestors d)"
    and "\<forall>c\<in>set (between a d). provides w c key = None"
    and "provides w a key = Some theme"
  shows "fst (injectTheme key (in_setup d w)) = Some theme"
  using assms by (simp add: injectTheme_in_setup between_def resolve_nearest)

text \<open>A value provided under another key is not seen: the two functions meet in the key.\<close>

lemma injectTheme_other_key:
  "key' \<noteq> key \<Longrightarrow>
   fst (injectTheme key' (in_setup d (provideTheme key theme (in_setup a w))))
     = fst (injectTheme key' (in_setup d w))"
proof -
  assume "key' \<noteq> key"
  then have "provides (provideTheme key theme (in_setup a w)) c key' = provides w c key'" for c
    by (simp add: provideTheme_provides)
  then have "resolve (provides (provideTheme key theme (in_setup a w))) key' cs
               = resolve (provides w) key' cs" for cs
    by (induction cs) (simp_all split: option.split)
  then show ?thesis
    by (simp add: injectTheme_in_setup)
qed

text \<open>
  C2, as the specification states it: whenever an ancestor calls \<open>provideTheme\<close> with
  a theme and a descendant then calls \<open>injectTheme\<close>, the descendant receives that
  theme. It does not when a component between the two has provided a theme of its own.
  The root provides \<^verbatim>\<open>'dark'\<close>, its first child provides \<^verbatim>\<open>'light'\<close>, and the
  first child of that child, a descendant of the root, then injects: it receives
  \<^verbatim>\<open>'light'\<close>.
\<close>

theorem provideTheme_shadowed_by_nearer:
  "[] \<in> set (ancestors [0, 0])
   \<and> fst (injectTheme ''V1StGXR8''
            (in_setup [0, 0]
               (provideTheme ''V1StGXR8'' ''light''
                  (in_setup [0]
                     (provideTheme ''V1StGXR8'' ''dark'' (in_setup [] (initial_world :: int world)))))))
       = Some ''light''
   \<and> fst (injectTheme ''V1StGXR8''
            (in_setup [0, 0]
               (provideTheme ''V1StGXR8'' ''light''
                  (in_setup [0]
                     (provideTheme ''V1StGXR8'' ''dark'' (in_setup [] (initial_world :: int world)))))))
       \<noteq> Some ''dark''"
  by (simp add: injectTheme_in_setup provideTheme_provides initial_world_def)

text \<open>
  C2, amended. Component \<open>a\<close> calls \<open>provideTheme\<close> with a theme in its setup, and
  a descendant \<open>d\<close> of \<open>a\<close> then calls \<open>injectTheme\<close> in its own: it receives that
  theme, for every theme and every key the module has drawn, provided that no component
  between \<open>a\<close> and \<open>d\<close> holds a theme of its own. (The nearest holder answers:
  \<open>injectTheme_nearest\<close>.) The round trip rests on the two functions using the one
  key of their module: under another key nothing comes back
  (\<open>injectTheme_other_key\<close>).
\<close>

theorem provideTheme_injectTheme_roundtrip:
  assumes "a \<in> set (ancestors d)"
    and "\<forall>c\<in>set (between a d). provides w c key = None"
  shows "fst (injectTheme key (in_setup d (provideTheme key theme (in_setup a w)))) = Some theme"
proof -
  let ?w = "provideTheme key theme (in_setup a w)"
  have "\<forall>c\<in>set (between a d). provides ?w c key = None"
    using assms(2) between_not_self [of _ a d] by (auto simp: provideTheme_provides)
  moreover have "provides ?w a key = Some theme"
    by (simp add: provideTheme_provides)
  ultimately show ?thesis
    using assms(1) by (intro injectTheme_nearest)
qed

theorem provideTheme_injectTheme_roundtrip_witness:
  "[0] \<in> set (ancestors [2, 1, 0])
   \<and> between [0] [2, 1, 0] = [[1, 0]]
   \<and> provides (provideTheme ''V1StGXR8'' ''light'' (in_setup [] (initial_world :: int world)))
        [1, 0] ''V1StGXR8'' = None
   \<and> fst (injectTheme ''V1StGXR8''
            (in_setup [2, 1, 0]
               (provideTheme ''V1StGXR8'' ''dark''
                  (in_setup [0]
                     (provideTheme ''V1StGXR8'' ''light'' (in_setup [] (initial_world :: int world)))))))
       = Some ''dark''"
  using provideTheme_injectTheme_roundtrip
    [of "[0]" "[2, 1, 0]"
        "provideTheme ''V1StGXR8'' ''light'' (in_setup [] (initial_world :: int world))"
        "''V1StGXR8''" "''dark''"]
  by (simp add: between_def provideTheme_provides initial_world_def)

text \<open>
  C10. \<open>injectTheme\<close> always returns: a theme or \<^verbatim>\<open>undefined\<close>. Outside every
  setup it returns \<^verbatim>\<open>undefined\<close>. In the setup of a component \<open>d\<close> it returns
  \<^verbatim>\<open>undefined\<close> exactly when no ancestor of \<open>d\<close> holds a theme under the module's
  key, which only \<open>provideTheme\<close> writes: the absent theme is told by the
  \<^verbatim>\<open>undefined\<close>, and by nothing else.
\<close>

theorem injectTheme_undefined_when_absent:
  "(currentInstance w = None \<longrightarrow> fst (injectTheme key w) = None)
   \<and> (fst (injectTheme key (in_setup d w)) = None
        \<longleftrightarrow> (\<forall>a\<in>set (ancestors d). provides w a key = None))"
  by (simp add: injectTheme_in_setup resolve_None_iff) (simp add: injectTheme_def inject_def)

theorem injectTheme_undefined_when_absent_witness:
  "fst (injectTheme ''V1StGXR8'' (initial_world :: int world)) = None
   \<and> fst (injectTheme ''V1StGXR8''
            (in_setup [0, 0]
               (provideTheme ''V1StGXR8'' ''dark'' (in_setup [1] (initial_world :: int world)))))
       = None
   \<and> fst (injectTheme ''V1StGXR8''
            (in_setup [0, 1]
               (provideTheme ''V1StGXR8'' ''dark'' (in_setup [1] (initial_world :: int world)))))
       \<noteq> None"
  using injectTheme_undefined_when_absent
    [of "initial_world :: int world" "''V1StGXR8''" "[0, 0]"]
    injectTheme_undefined_when_absent
    [of "provideTheme ''V1StGXR8'' ''dark'' (in_setup [1] (initial_world :: int world))"
        "''V1StGXR8''" "[0, 0]"]
    injectTheme_undefined_when_absent
    [of "provideTheme ''V1StGXR8'' ''dark'' (in_setup [1] (initial_world :: int world))"
        "''V1StGXR8''" "[0, 1]"]
  by (simp add: provideTheme_provides initial_world_def)

end
